theory Spec2Isabelle
  imports Complex_Main "HOL-Library.Multiset"
begin

section \<open>Python values, exceptions and the command line\<close>

text \<open>
  The server module \<^verbatim>\<open>fl_server.py\<close> raises no exception of its own: whatever fails,
  fails with one of Python's built-in exceptions. \<open>KeyError\<close> carries the missing key,
  \<open>AssertionError\<close> the message of the failed \<^verbatim>\<open>assert\<close>.
\<close>

datatype error = KeyError string | TypeError | ZeroDivisionError | AssertionError string

text \<open>
  Flower's \<^verbatim>\<open>Scalar\<close> is the union of \<^verbatim>\<open>bool\<close>, \<^verbatim>\<open>bytes\<close>, \<^verbatim>\<open>float\<close>, \<^verbatim>\<open>int\<close> and
  \<^verbatim>\<open>str\<close>; \<^verbatim>\<open>Metrics\<close> is \<^verbatim>\<open>Dict[str, Scalar]\<close>. A Python \<^verbatim>\<open>float\<close> is modelled by the
  rational number it denotes and float arithmetic by exact arithmetic: rounding,
  infinities and NaN are outside this model.
\<close>

datatype scalar = SBool bool | SBytes string | SFloat rat | SInt int | SStr string

type_synonym Metrics = "string \<rightharpoonup> scalar"

text \<open>The namespace \<^verbatim>\<open>args\<close> that \<^verbatim>\<open>parser.parse_args()\<close> leaves in the module.\<close>

record args =
  server_address :: string
  rounds :: int
  min_sample_size :: int
  min_num_clients :: int
  model :: string
  dataset :: string
  num_workers :: int
  pin_memory :: bool

text \<open>The parser's defaults, with an address for the one required option.\<close>

definition default_args :: args where
  "default_args =
     \<lparr>server_address = ''[::]:8080'', rounds = 5, min_sample_size = 3, min_num_clients = 3,
      model = ''AE'', dataset = ''ENERGY'', num_workers = 10, pin_memory = False\<rparr>"

subsection \<open>\<^verbatim>\<open>str\<close> on integers and booleans\<close>

definition digit_char :: "nat \<Rightarrow> char" where
  "digit_char d = ''0123456789'' ! d"

fun str_nat :: "nat \<Rightarrow> string" where
  "str_nat n = (if n < 10 then [digit_char n] else str_nat (n div 10) @ [digit_char (n mod 10)])"

declare str_nat.simps [simp del]

definition str_int :: "int \<Rightarrow> string" where
  "str_int i = (if i < 0 then CHR ''-'' # str_nat (nat (- i)) else str_nat (nat i))"

definition str_bool :: "bool \<Rightarrow> string" where
  "str_bool b = (if b then ''True'' else ''False'')"

section \<open>The configuration schedule\<close>

text \<open>
  \<^verbatim>\<open>val_steps = 5 if rnd < 4 else 10; return {"val_steps": val_steps}\<close>
\<close>

definition evaluate_config :: "int \<Rightarrow> (string \<rightharpoonup> int)" where
  "evaluate_config rnd = (let val_steps = (if rnd < 4 then 5 else 10) in [''val_steps'' \<mapsto> val_steps])"

text \<open>
  \<^verbatim>\<open>fit_config\<close> reads the module's \<^verbatim>\<open>args\<close>; here they are its first argument. Every
  value of the dictionary is a \<^verbatim>\<open>str\<close>: four of them are made by \<^verbatim>\<open>str(...)\<close>, two are the
  string options themselves.
\<close>

definition fit_config :: "args \<Rightarrow> int \<Rightarrow> (string \<rightharpoonup> scalar)" where
  "fit_config a rnd =
     [''epoch_global'' \<mapsto> SStr (str_int rnd),
      ''epochs'' \<mapsto> SStr (str_int 5),
      ''num_workers'' \<mapsto> SStr (str_int (num_workers a)),
      ''pin_memory'' \<mapsto> SStr (str_bool (pin_memory a)),
      ''model'' \<mapsto> SStr (model a),
      ''dataset'' \<mapsto> SStr (dataset a)]"

section \<open>Weighted metric aggregation\<close>

text \<open>
  \<^verbatim>\<open>num_examples * m["accuracy"]\<close>: an \<^verbatim>\<open>int\<close> times a number is a number (a \<^verbatim>\<open>bool\<close>
  counts as 0 or 1), an \<^verbatim>\<open>int\<close> times a \<^verbatim>\<open>str\<close> or \<^verbatim>\<open>bytes\<close> repeats it (not at all for a
  count below 1).
\<close>

fun times_int :: "int \<Rightarrow> scalar \<Rightarrow> scalar" where
  "times_int n (SBool b) = SInt (n * (if b then 1 else 0))"
| "times_int n (SInt i) = SInt (n * i)"
| "times_int n (SFloat x) = SFloat (of_int n * x)"
| "times_int n (SStr s) = SStr (concat (replicate (nat n) s))"
| "times_int n (SBytes s) = SBytes (concat (replicate (nat n) s))"

text \<open>
  The list comprehension of \<^verbatim>\<open>weighted_average\<close>, left to right; the subscript
  \<^verbatim>\<open>m["accuracy"]\<close> raises \<^verbatim>\<open>KeyError\<close> at the first dictionary without the key.
\<close>

fun accuracies :: "(int \<times> Metrics) list \<Rightarrow> error + scalar list" where
  "accuracies [] = Inr []"
| "accuracies ((num_examples, m) # rest) =
     (case m ''accuracy'' of
        None \<Rightarrow> Inl (KeyError ''accuracy'')
      | Some v \<Rightarrow>
          (case accuracies rest of
             Inl e \<Rightarrow> Inl e
           | Inr ps \<Rightarrow> Inr (times_int num_examples v # ps)))"

text \<open>
  The built-in \<^verbatim>\<open>sum\<close>: it starts from the integer 0 and adds the items in order, so the
  running total is always a number, and adding a \<^verbatim>\<open>str\<close> or \<^verbatim>\<open>bytes\<close> item to it raises
  \<^verbatim>\<open>TypeError\<close>. The total is kept as a rational, whether Python holds it as \<^verbatim>\<open>int\<close> or
  \<^verbatim>\<open>float\<close>.
\<close>

fun number :: "scalar \<Rightarrow> rat option" where
  "number (SBool b) = Some (if b then 1 else 0)"
| "number (SInt i) = Some (of_int i)"
| "number (SFloat x) = Some x"
| "number (SStr s) = None"
| "number (SBytes s) = None"

fun sum_from :: "rat \<Rightarrow> scalar list \<Rightarrow> error + rat" where
  "sum_from start [] = Inr start"
| "sum_from start (v # vs) =
     (case number v of
        None \<Rightarrow> Inl TypeError
      | Some x \<Rightarrow> sum_from (start + x) vs)"

text \<open>
  \<^verbatim>\<open>return {"accuracy": sum(accuracies) / sum(examples)}\<close>. The numerator is evaluated
  first; \<^verbatim>\<open>/\<close> is true division, which raises \<^verbatim>\<open>ZeroDivisionError\<close> on a zero divisor and
  gives a \<^verbatim>\<open>float\<close> otherwise. The \<^verbatim>\<open>print\<close> has no part in the result.
\<close>

definition weighted_average :: "(int \<times> Metrics) list \<Rightarrow> error + Metrics" where
  "weighted_average metrics =
     (case accuracies metrics of
        Inl e \<Rightarrow> Inl e
      | Inr accs \<Rightarrow>
          (let examples = map fst metrics in
           case sum_from 0 accs of
             Inl e \<Rightarrow> Inl e
           | Inr weighted \<Rightarrow>
               if sum_list examples = 0 then Inl ZeroDivisionError
               else Inr [''accuracy'' \<mapsto> SFloat (weighted / of_int (sum_list examples))]))"

text \<open>
  Two notions for stating properties: the accuracy a metrics dictionary reports, when it
  reports a number, and the weighted sum of the accuracies of a collection.
\<close>

definition accuracy_of :: "Metrics \<Rightarrow> rat option" where
  "accuracy_of m = (case m ''accuracy'' of None \<Rightarrow> None | Some v \<Rightarrow> number v)"

definition weighted_sum :: "(int \<times> Metrics) list \<Rightarrow> rat" where
  "weighted_sum ms = (\<Sum>p\<leftarrow>ms. of_int (fst p) * the (accuracy_of (snd p)))"

section \<open>Centralized evaluation\<close>




section \<open>Startup\<close>

text \<open>
  \<^verbatim>\<open>main\<close> prints the arguments, asserts \<^verbatim>\<open>min_sample_size <= min_num_clients\<close> and only
  then configures the logger, loads data and model, builds the strategy and starts the
  server that runs the rounds. The world outside the function is a state \<open>'w\<close>;
  \<open>print_args\<close> is the effect of line 83 on it and \<open>serve\<close> stands for lines 89 to 124,
  which may themselves fail. (Run normally, that is without \<^verbatim>\<open>-O\<close>, which would strip
  the \<^verbatim>\<open>assert\<close>.)
\<close>

definition main ::
  "(args \<Rightarrow> 'w \<Rightarrow> 'w) \<Rightarrow> (args \<Rightarrow> 'w \<Rightarrow> (error + unit) \<times> 'w) \<Rightarrow> args \<Rightarrow> 'w \<Rightarrow> (error + unit) \<times> 'w" where
  "main print_args serve a w =
     (let w1 = print_args a w in
      if min_sample_size a \<le> min_num_clients a then serve a w1
      else (Inl (AssertionError ''Num_clients shouldn't be lower than min_sample_size''), w1))"

section \<open>The text of an integer\<close>

text \<open>
  \<open>str_int\<close> writes the decimal digits, most significant first, after a minus sign for a
  negative number. Different integers have different texts, so the \<open>epoch_global\<close> that
  \<open>fit_config\<close> sends identifies the round.
\<close>

lemma digit_char_inj:
  "d < 10 \<Longrightarrow> e < 10 \<Longrightarrow> digit_char d = digit_char e \<Longrightarrow> d = e"
proof -
  assume "d < 10" "e < 10" "digit_char d = digit_char e"
  moreover have "distinct ''0123456789''" by simp
  ultimately show ?thesis
    by (simp add: digit_char_def nth_eq_iff_index_eq)
qed

lemma digit_char_not_minus: "d < 10 \<Longrightarrow> digit_char d \<noteq> CHR ''-''"
proof -
  assume "d < 10"
  then have "digit_char d \<in> set ''0123456789''"
    unfolding digit_char_def by (intro nth_mem) simp
  then show ?thesis by auto
qed

lemma str_nat_not_Nil: "str_nat n \<noteq> []"
  by (subst str_nat.simps) simp

lemma last_str_nat: "last (str_nat n) = digit_char (n mod 10)"
  by (subst str_nat.simps) simp

lemma butlast_str_nat: "butlast (str_nat n) = (if n < 10 then [] else str_nat (n div 10))"
  by (subst str_nat.simps) simp

lemma hd_str_nat: "hd (str_nat n) \<noteq> CHR ''-''"
proof (induction n rule: str_nat.induct)
  case (1 n)
  show ?case
  proof (cases "n < 10")
    case True
    then show ?thesis by (subst str_nat.simps) (simp add: digit_char_not_minus)
  next
    case False
    with 1 show ?thesis
      by (subst str_nat.simps) (simp add: str_nat_not_Nil)
  qed
qed

lemma str_nat_inj: "str_nat m = str_nat n \<Longrightarrow> m = n"
proof (induction m arbitrary: n rule: str_nat.induct)
  case (1 m)
  from \<open>str_nat m = str_nat n\<close> have "last (str_nat m) = last (str_nat n)"
    and bl: "butlast (str_nat m) = butlast (str_nat n)"
    by simp_all
  then have "digit_char (m mod 10) = digit_char (n mod 10)"
    by (simp add: last_str_nat)
  then have units: "m mod 10 = n mod 10"
    by (intro digit_char_inj) simp_all
  from bl have tens: "m div 10 = n div 10"
  proof (cases "m < 10"; cases "n < 10")
    assume "\<not> m < 10" "\<not> n < 10"
    with bl have "str_nat (m div 10) = str_nat (n div 10)"
      by (simp add: butlast_str_nat)
    with \<open>\<not> m < 10\<close> show ?thesis by (rule "1.IH")
  qed (use str_nat_not_Nil [of "m div 10"] str_nat_not_Nil [of "n div 10"] in
      \<open>auto simp: butlast_str_nat\<close>)
  from units tens show ?case
    by (metis div_mult_mod_eq)
qed

lemma str_int_inj: "str_int i = str_int j \<Longrightarrow> i = j"
proof -
  assume eq: "str_int i = str_int j"
  have neq: "CHR ''-'' # str_nat a \<noteq> str_nat b" for a b
    using hd_str_nat [of b] by (metis list.sel(1))
  show ?thesis
  proof (cases "i < 0"; cases "j < 0")
    assume "i < 0" "j < 0"
    with eq have "nat (- i) = nat (- j)"
      by (auto simp: str_int_def dest: str_nat_inj)
    with \<open>i < 0\<close> \<open>j < 0\<close> show ?thesis by simp
  next
    assume "\<not> i < 0" "\<not> j < 0"
    with eq have "nat i = nat j"
      by (auto simp: str_int_def dest: str_nat_inj)
    with \<open>\<not> i < 0\<close> \<open>\<not> j < 0\<close> show ?thesis by simp
  qed (use eq neq [of "nat (- i)" "nat j"] neq [of "nat (- j)" "nat i"] in
      \<open>auto simp: str_int_def\<close>)
qed

section \<open>What the aggregation computes\<close>

text \<open>
  The comprehension fails exactly when some dictionary lacks the key, the sum exactly
  when some item is not a number; otherwise both are plain maps and sums.
\<close>

lemma accuracies_eq:
  "accuracies ms =
     (if \<exists>p \<in> set ms. snd p ''accuracy'' = None then Inl (KeyError ''accuracy'')
      else Inr (map (\<lambda>p. times_int (fst p) (the (snd p ''accuracy''))) ms))"
  by (induction ms rule: accuracies.induct) (auto split: option.splits)

lemma sum_from_eq:
  "sum_from s vs =
     (if \<exists>v \<in> set vs. number v = None then Inl TypeError
      else Inr (s + sum_list (map (\<lambda>v. the (number v)) vs)))"
  by (induction vs arbitrary: s) (auto split: option.splits simp: algebra_simps)

lemma number_times_int:
  "number (times_int n v) = map_option (\<lambda>x. of_int n * x) (number v)"
  by (cases v) auto

text \<open>
  The whole of \<open>weighted_average\<close> in one equation: the three ways in which it fails, in
  the order in which Python meets them, and the value it returns otherwise.
\<close>

lemma weighted_average_eq:
  "weighted_average ms =
     (if \<exists>p \<in> set ms. snd p ''accuracy'' = None then Inl (KeyError ''accuracy'')
      else if \<exists>p \<in> set ms. accuracy_of (snd p) = None then Inl TypeError
      else if sum_list (map fst ms) = 0 then Inl ZeroDivisionError
      else Inr [''accuracy'' \<mapsto> SFloat (weighted_sum ms / of_int (sum_list (map fst ms)))])"
proof (cases "\<exists>p \<in> set ms. snd p ''accuracy'' = None")
  case True
  then show ?thesis by (simp add: weighted_average_def accuracies_eq)
next
  case present: False
  let ?accs = "map (\<lambda>p. times_int (fst p) (the (snd p ''accuracy''))) ms"
  have acc: "accuracies ms = Inr ?accs"
    using present by (simp add: accuracies_eq)
  have num: "number (times_int (fst p) (the (snd p ''accuracy''))) =
      map_option (\<lambda>x. of_int (fst p) * x) (accuracy_of (snd p))" if "p \<in> set ms" for p
    using that present by (auto simp: number_times_int accuracy_of_def)
  show ?thesis
  proof (cases "\<exists>p \<in> set ms. accuracy_of (snd p) = None")
    case True
    then have "\<exists>v \<in> set ?accs. number v = None"
      using num by auto
    then have "sum_from 0 ?accs = Inl TypeError"
      by (simp only: sum_from_eq if_True)
    then show ?thesis
      using present True acc by (simp add: weighted_average_def)
  next
    case numeric: False
    have "\<not> (\<exists>v \<in> set ?accs. number v = None)"
      using num numeric by auto
    then have "sum_from 0 ?accs = Inr (0 + sum_list (map (\<lambda>v. the (number v)) ?accs))"
      by (simp only: sum_from_eq if_False)
    moreover have "sum_list (map (\<lambda>v. the (number v)) ?accs) = weighted_sum ms"
      unfolding weighted_sum_def map_map
    proof (rule arg_cong [where f = sum_list], rule map_cong [OF refl])
      fix p assume "p \<in> set ms"
      then show "((\<lambda>v. the (number v)) \<circ> (\<lambda>p. times_int (fst p) (the (snd p ''accuracy'')))) p =
          of_int (fst p) * the (accuracy_of (snd p))"
        using num [of p] numeric by auto
    qed
    ultimately have "sum_from 0 ?accs = Inr (weighted_sum ms)"
      by simp
    then show ?thesis
      using present numeric acc by (simp add: weighted_average_def)
  qed
qed

section \<open>The evaluation schedule\<close>

text \<open>
  Claim C1. For a round index 1, 2 or 3 the dictionary returned by \<open>evaluate_config\<close>
  has 5 under \<open>val_steps\<close>, and for every round index from 4 on it has 10.
\<close>

theorem evaluate_config_val_steps:
  "(r \<in> {1, 2, 3} \<longrightarrow> evaluate_config r ''val_steps'' = Some 5) \<and>
   (4 \<le> r \<longrightarrow> evaluate_config r ''val_steps'' = Some 10)"
  by (auto simp: evaluate_config_def)

theorem evaluate_config_val_steps_witness:
  "(2::int) \<in> {1, 2, 3} \<and> evaluate_config 2 ''val_steps'' = Some 5 \<and>
   (4::int) \<le> 5 \<and> evaluate_config 5 ''val_steps'' = Some 10"
  using evaluate_config_val_steps [of 2] evaluate_config_val_steps [of 5] by simp

text \<open>
  Claim C9. \<open>evaluate_config\<close> is defined on every integer, and below 4 (also at 0 and
  at negative indices) the whole dictionary it returns is \<open>{"val_steps": 5}\<close>.
\<close>

theorem evaluate_config_below_4:
  "r < 4 \<Longrightarrow> evaluate_config r = [''val_steps'' \<mapsto> 5]"
  by (simp add: evaluate_config_def)

theorem evaluate_config_below_4_witness:
  "(0::int) < 4 \<and> evaluate_config 0 = [''val_steps'' \<mapsto> 5] \<and>
   (- 7::int) < 4 \<and> evaluate_config (- 7) = [''val_steps'' \<mapsto> 5]"
  using evaluate_config_below_4 [of 0] evaluate_config_below_4 [of "- 7"] by simp

section \<open>The training configuration\<close>

text \<open>
  Claim C6, as the specification states it, makes \<open>epoch_global\<close> the round index
  itself and \<open>pin_memory\<close> a boolean. The code sends neither: at round 3, with the
  parser's defaults, \<open>epoch_global\<close> is not the integer 3 and \<open>pin_memory\<close> is not the
  boolean \<open>False\<close>.
\<close>

theorem fit_config_values_counterexample:
  "fit_config default_args 3 ''epoch_global'' \<noteq> Some (SInt 3) \<and>
   fit_config default_args 3 ''pin_memory'' \<noteq> Some (SBool False)"
  by (simp add: fit_config_def)

text \<open>
  Claim C6, amended. For every round index \<open>r\<close> the dictionary returned by
  \<open>fit_config\<close> has exactly the six recognized keys, and every value is a string:
  \<open>epoch_global\<close> is the decimal text of \<open>r\<close>, \<open>epochs\<close> is the text \<open>5\<close> whatever the
  round, \<open>num_workers\<close> is the decimal text of the configured worker count,
  \<open>pin_memory\<close> is the text \<open>True\<close> or \<open>False\<close>, and \<open>model\<close> and \<open>dataset\<close> are the
  configured identifiers.
\<close>

theorem fit_config_values:
  "dom (fit_config a r) =
     {''epoch_global'', ''epochs'', ''num_workers'', ''pin_memory'', ''model'', ''dataset''} \<and>
   fit_config a r ''epoch_global'' = Some (SStr (str_int r)) \<and>
   fit_config a r ''epochs'' = Some (SStr ''5'') \<and>
   fit_config a r ''num_workers'' = Some (SStr (str_int (num_workers a))) \<and>
   fit_config a r ''pin_memory'' = Some (SStr (if pin_memory a then ''True'' else ''False'')) \<and>
   fit_config a r ''model'' = Some (SStr (model a)) \<and>
   fit_config a r ''dataset'' = Some (SStr (dataset a))"
proof -
  have "str_int 5 = ''5''"
    by (simp add: str_int_def str_nat.simps digit_char_def)
  then show ?thesis
    by (auto simp: fit_config_def str_bool_def)
qed

theorem fit_config_values_witness:
  "fit_config default_args 3 ''epoch_global'' = Some (SStr ''3'') \<and>
   fit_config default_args 12 ''epoch_global'' = Some (SStr ''12'') \<and>
   fit_config default_args 3 ''epochs'' = Some (SStr ''5'') \<and>
   fit_config default_args 3 ''num_workers'' = Some (SStr ''10'') \<and>
   fit_config default_args 3 ''pin_memory'' = Some (SStr ''False'') \<and>
   fit_config default_args 3 ''model'' = Some (SStr ''AE'') \<and>
   fit_config default_args 3 ''dataset'' = Some (SStr ''ENERGY'')"
  using fit_config_values [of default_args 3] fit_config_values [of default_args 12]
  by (simp add: default_args_def str_int_def str_nat.simps digit_char_def)

section \<open>The weighted average\<close>






text \<open>
  Claim C4, as the specification states it, has entries without the key left out of the
  aggregate. The code leaves nothing out: with one entry reporting 0.8 and one entry
  without the key it raises \<open>KeyError\<close> instead of returning 0.8.
\<close>

theorem weighted_average_missing_key_counterexample:
  "weighted_average [(100, [''accuracy'' \<mapsto> SFloat 0.8]), (200, Map.empty)] = Inl (KeyError ''accuracy'') \<and>
   weighted_average [(100, [''accuracy'' \<mapsto> SFloat 0.8]), (200, Map.empty)] \<noteq>
     Inr [''accuracy'' \<mapsto> SFloat 0.8]"
  by (simp add: weighted_average_def)

text \<open>
  Claim C4, amended. \<open>weighted_average\<close> fails with \<open>KeyError\<close> for the key
  \<open>accuracy\<close> exactly when at least one entry lacks that key, whether the key is
  missing from one participant or from all of them; an entry without the key is never
  skipped.
\<close>

theorem weighted_average_missing_key:
  "weighted_average ms = Inl (KeyError ''accuracy'') \<longleftrightarrow> (\<exists>(n, m) \<in> set ms. m ''accuracy'' = None)"
proof -
  have "(\<exists>(n, m) \<in> set ms. m ''accuracy'' = None) \<longleftrightarrow> (\<exists>p \<in> set ms. snd p ''accuracy'' = None)"
    by (auto simp: case_prod_beta)
  then show ?thesis
    by (simp add: weighted_average_eq)
qed

theorem weighted_average_missing_key_witness:
  "weighted_average [(5, Map.empty), (7, [''loss'' \<mapsto> SFloat 0.3])] = Inl (KeyError ''accuracy'') \<and>
   weighted_average [(5, [''accuracy'' \<mapsto> SFloat 0.5]), (7, [''loss'' \<mapsto> SFloat 0.3])] = Inl (KeyError ''accuracy'') \<and>
   weighted_average [(5, [''accuracy'' \<mapsto> SFloat 0.5])] \<noteq> Inl (KeyError ''accuracy'')"
  using weighted_average_missing_key [of "[(5, Map.empty), (7, [''loss'' \<mapsto> SFloat 0.3])]"]
    weighted_average_missing_key [of "[(5, [''accuracy'' \<mapsto> SFloat 0.5]), (7, [''loss'' \<mapsto> SFloat 0.3])]"]
    weighted_average_missing_key [of "[(5, [''accuracy'' \<mapsto> SFloat 0.5])]"]
  by simp

text \<open>
  The order of the collection. With the exact arithmetic of this model the outcome of
  \<open>weighted_average\<close>, failure or value, depends only on the multiset of client results.
  An interpreter rounds as it adds floats (CPython up to 3.11 after every addition, from
  left to right), so there two orders of the same results can differ in the last bits of
  the accuracy; that rounding is outside the model, and the lemma says nothing about it.
\<close>

lemma weighted_average_mset:
  "mset ms' = mset ms \<Longrightarrow> weighted_average ms' = weighted_average ms"
proof -
  assume eq: "mset ms' = mset ms"
  then have sets: "set ms' = set ms"
    by (rule mset_eq_setD)
  have sums: "sum_list (map f ms') = sum_list (map f ms)" for f :: "int \<times> Metrics \<Rightarrow> 'a::comm_monoid_add"
    using eq by (metis mset_map sum_mset_sum_list)
  have "weighted_sum ms' = weighted_sum ms"
    unfolding weighted_sum_def by (rule sums)
  moreover have "sum_list (map fst ms') = sum_list (map fst ms)"
    by (rule sums)
  ultimately show ?thesis
    unfolding weighted_average_eq sets by simp
qed

section \<open>The accuracy of the centralized evaluation\<close>



section \<open>The startup check\<close>

text \<open>
  Claim C8. When the configured \<open>min_sample_size\<close> exceeds \<open>min_num_clients\<close>,
  \<open>main\<close> fails with the \<open>AssertionError\<close> and the world is as the \<open>print\<close> left it:
  whatever the rest of the function would do, none of it happens, so no server is
  started and no round is run. The instance below is \<open>min_sample_size = 3\<close> with
  \<open>min_num_clients = 2\<close>, in a world that counts the rounds run.
\<close>

theorem main_fails_fast:
  "min_num_clients a < min_sample_size a \<Longrightarrow>
   main print_args serve a w =
     (Inl (AssertionError ''Num_clients shouldn't be lower than min_sample_size''), print_args a w)"
  by (simp add: main_def)

theorem main_fails_fast_witness:
  "min_num_clients (default_args\<lparr>min_sample_size := 3, min_num_clients := 2\<rparr>) <
     min_sample_size (default_args\<lparr>min_sample_size := 3, min_num_clients := 2\<rparr>) \<and>
   main (\<lambda>a w. w) (\<lambda>a w. (Inr (), w + nat (rounds a)))
     (default_args\<lparr>min_sample_size := 3, min_num_clients := 2\<rparr>) (0::nat) =
     (Inl (AssertionError ''Num_clients shouldn't be lower than min_sample_size''), 0)"
  using main_fails_fast
    [of "default_args\<lparr>min_sample_size := 3, min_num_clients := 2\<rparr>" "\<lambda>a w. w"
        "\<lambda>a w. (Inr (), w + nat (rounds a))" "0::nat"]
  by simp

end
